theory Spec2Isabelle
  imports Complex_Main "HOL-Library.Multiset" "HOL-Library.Sublist"
begin

section \<open>JavaScript values\<close>

text \<open>
  The risk engine of \<^verbatim>\<open>data/celestialData.js\<close> works on JavaScript numbers. Every
  number it compares is a catalog field, a literal threshold, or a field doubled, and the
  sub-scores are small integers, so the values are modelled as reals; the one non-real
  number that the code can produce is \<^verbatim>\<open>NaN\<close> (from \<^verbatim>\<open>undefined * 2\<close> and from
  \<^verbatim>\<open>0 / 0\<close>). A field of the body object is \<open>None\<close> when the property is absent
  (\<^verbatim>\<open>undefined\<close>). Reading a property of \<^verbatim>\<open>undefined\<close> raises \<^verbatim>\<open>TypeError\<close>.
  Strings are the UTF-8 bytes of the source text.
\<close>

datatype jsnum = Num real | NaN

datatype error = TypeError

definition ToNumber :: "real option \<Rightarrow> jsnum" where
  "ToNumber v = (case v of None \<Rightarrow> NaN | Some x \<Rightarrow> Num x)"

fun js_lt :: "jsnum \<Rightarrow> jsnum \<Rightarrow> bool" where
  "js_lt (Num x) (Num y) = (x < y)"
| "js_lt _ _ = False"

fun js_gt :: "jsnum \<Rightarrow> jsnum \<Rightarrow> bool" where
  "js_gt (Num x) (Num y) = (x > y)"
| "js_gt _ _ = False"

fun js_mul :: "jsnum \<Rightarrow> jsnum \<Rightarrow> jsnum" where
  "js_mul (Num x) (Num y) = Num (x * y)"
| "js_mul _ _ = NaN"

fun js_sub :: "jsnum \<Rightarrow> jsnum \<Rightarrow> jsnum" where
  "js_sub (Num x) (Num y) = Num (x - y)"
| "js_sub _ _ = NaN"

fun js_le :: "jsnum \<Rightarrow> jsnum \<Rightarrow> bool" where
  "js_le (Num x) (Num y) = (x \<le> y)"
| "js_le _ _ = False"

text \<open>
  Division. The program divides by a nonzero literal, or a sum of scores by the length of
  the array it was summed over, where a zero divisor comes with a zero dividend:
  \<^verbatim>\<open>0 / 0\<close> is \<^verbatim>\<open>NaN\<close>. A nonzero number over zero (an infinity) does not arise.
\<close>

fun js_div :: "jsnum \<Rightarrow> jsnum \<Rightarrow> jsnum" where
  "js_div (Num x) (Num y) = (if y = 0 then NaN else Num (x / y))"
| "js_div _ _ = NaN"

text \<open>\<^verbatim>\<open>Math.round\<close>: the nearest integer, a tie going up.\<close>

definition Math_round :: "real \<Rightarrow> int" where
  "Math_round x = \<lfloor>x + 1 / 2\<rfloor>"

fun js_round :: "jsnum \<Rightarrow> jsnum" where
  "js_round (Num x) = Num (of_int (Math_round x))"
| "js_round NaN = NaN"

fun Math_ceil :: "jsnum \<Rightarrow> jsnum" where
  "Math_ceil (Num x) = Num (of_int \<lceil>x\<rceil>)"
| "Math_ceil NaN = NaN"

fun Math_abs :: "jsnum \<Rightarrow> jsnum" where
  "Math_abs (Num x) = Num \<bar>x\<bar>"
| "Math_abs NaN = NaN"

text \<open>
  \<^verbatim>\<open>Number.prototype.toFixed\<close>. A number that is not finite prints as \<^verbatim>\<open>NaN\<close>; the
  digits of a finite number are the host's, passed as \<open>fx\<close> (digits first, then the value).
  On a property that is absent the method call raises.
\<close>

definition toFixed :: "(nat \<Rightarrow> real \<Rightarrow> string) \<Rightarrow> jsnum \<Rightarrow> nat \<Rightarrow> string" where
  "toFixed fx n d = (case n of NaN \<Rightarrow> ''NaN'' | Num x \<Rightarrow> fx d x)"

definition field_toFixed ::
  "(nat \<Rightarrow> real \<Rightarrow> string) \<Rightarrow> real option \<Rightarrow> nat \<Rightarrow> error + string" where
  "field_toFixed fx v d =
     (case v of None \<Rightarrow> Inl TypeError | Some x \<Rightarrow> Inr (toFixed fx (Num x) d))"

definition bind_err :: "error + 'a \<Rightarrow> ('a \<Rightarrow> error + 'b) \<Rightarrow> error + 'b" where
  "bind_err r f = (case r of Inl e \<Rightarrow> Inl e | Inr x \<Rightarrow> f x)"

text \<open>
  Decimal digits of a natural number, and the digits \<^verbatim>\<open>toFixed\<close> gives a finite value
  below \<open>10\<^sup>2\<^sup>1\<close>: the integer nearest to \<open>x * 10\<^sup>f\<close> (the larger of two), padded with
  zeros to \<open>f + 1\<close> digits, the point before the last \<open>f\<close>. It is the \<open>fx\<close> the model is
  run with on concrete bodies.
\<close>

fun decimal :: "nat \<Rightarrow> string" where
  "decimal n =
     (if n < 10 then [''0123456789'' ! n]
      else decimal (n div 10) @ [''0123456789'' ! (n mod 10)])"

text \<open>
  A number in a template literal. The program prints only \<^verbatim>\<open>Math.abs(Math.round(d))\<close>
  this way: a non-negative integer (below \<open>10\<^sup>2\<^sup>1\<close>, the scores being at most 100) or
  \<^verbatim>\<open>NaN\<close>.
\<close>

definition integer_toString :: "jsnum \<Rightarrow> string" where
  "integer_toString n = (case n of NaN \<Rightarrow> ''NaN'' | Num x \<Rightarrow> decimal (nat \<lfloor>x\<rfloor>))"

definition fixed_decimal :: "nat \<Rightarrow> real \<Rightarrow> string" where
  "fixed_decimal f x =
     (let s = (if x < 0 then ''-'' else '''');
          n = nat \<lfloor>\<bar>x\<bar> * 10 ^ f + 1 / 2\<rfloor>;
          m = decimal n
      in if f = 0 then s @ m
         else let z = replicate (f + 1 - length m) (CHR ''0'') @ m;
                  k = length z
              in s @ take (k - f) z @ ''.'' @ drop (k - f) z)"

section \<open>Data model\<close>

record CelestialBody =
  body_id :: string
  name :: string
  distanceFromEarth :: "real option"
  velocity :: "real option"
  radius :: "real option"
  color :: string
  closeApproachDate :: "string option"

datatype RiskLevel = LOW | MEDIUM | HIGH

record Factor =
  factor_name :: string
  factor_score :: int
  factor_max :: int
  percentage :: real
  factor_explanation :: string

text \<open>
  The assessment. The source's \<^verbatim>\<open>details\<close> object (the raw metrics and the impact-energy
  text, computed with \<^verbatim>\<open>Math.PI\<close>) is left out: \<^verbatim>\<open>calculateImpactEnergy\<close> has no
  raising path, so it does not change which calls return.
\<close>

record RiskAssessment =
  score :: int
  level :: RiskLevel
  risk_color :: string
  explanation :: string
  factors :: "Factor list"

section \<open>calculateRiskScore\<close>

text \<open>FACTOR 1: DISTANCE RISK (0-40 points).\<close>

definition distanceBucket ::
  "(nat \<Rightarrow> real \<Rightarrow> string) \<Rightarrow> CelestialBody \<Rightarrow> error + int \<times> string" where
  "distanceBucket fx body =
     (if js_lt (ToNumber (distanceFromEarth body)) (Num 0.5) then
        bind_err (field_toFixed fx (distanceFromEarth body) 2) (\<lambda>t. Inr (40,
          ''CRITICAL proximity at '' @ t @
          '' M km - Extremely close approach requiring immediate attention''))
      else if js_lt (ToNumber (distanceFromEarth body)) (Num 5) then
        bind_err (field_toFixed fx (distanceFromEarth body) 2) (\<lambda>t. Inr (30,
          ''HIGH proximity at '' @ t @
          '' M km - Close monitoring zone, potential near-miss''))
      else if js_lt (ToNumber (distanceFromEarth body)) (Num 50) then
        bind_err (field_toFixed fx (distanceFromEarth body) 2) (\<lambda>t. Inr (20,
          ''MEDIUM proximity at '' @ t @
          '' M km - Standard tracking distance''))
      else
        bind_err (field_toFixed fx (distanceFromEarth body) 2) (\<lambda>t. Inr (10,
          ''LOW proximity at '' @ t @
          '' M km - Distant object, minimal immediate concern'')))"

definition distanceFactor ::
  "(nat \<Rightarrow> real \<Rightarrow> string) \<Rightarrow> CelestialBody \<Rightarrow> error + Factor" where
  "distanceFactor fx body =
     bind_err (distanceBucket fx body) (\<lambda>(distanceScore, distanceExplanation). Inr
       \<lparr>factor_name = ''Distance'', factor_score = distanceScore, factor_max = 40,
        percentage = (real_of_int distanceScore / 40) * 100,
        factor_explanation = distanceExplanation\<rparr>)"

text \<open>FACTOR 2: VELOCITY RISK (0-35 points).\<close>

definition velocityBucket ::
  "(nat \<Rightarrow> real \<Rightarrow> string) \<Rightarrow> CelestialBody \<Rightarrow> error + int \<times> string" where
  "velocityBucket fx body =
     (if js_gt (ToNumber (velocity body)) (Num 35) then
        bind_err (field_toFixed fx (velocity body) 1) (\<lambda>t. Inr (35,
          ''CRITICAL velocity at '' @ t @
          '' km/s - Extremely fast approach increases impact energy exponentially (KE = '' @
          [CHR 0xC2, CHR 0xBD] @ ''mv'' @ [CHR 0xC2, CHR 0xB2] @ '')''))
      else if js_gt (ToNumber (velocity body)) (Num 30) then
        bind_err (field_toFixed fx (velocity body) 1) (\<lambda>t. Inr (25,
          ''HIGH velocity at '' @ t @
          '' km/s - Fast approach significantly increases kinetic energy and damage potential''))
      else if js_gt (ToNumber (velocity body)) (Num 25) then
        bind_err (field_toFixed fx (velocity body) 1) (\<lambda>t. Inr (15,
          ''MEDIUM velocity at '' @ t @
          '' km/s - Moderate speed within typical asteroid range''))
      else
        bind_err (field_toFixed fx (velocity body) 1) (\<lambda>t. Inr (5,
          ''LOW velocity at '' @ t @
          '' km/s - Relatively slow approach reduces impact energy'')))"

definition velocityFactor ::
  "(nat \<Rightarrow> real \<Rightarrow> string) \<Rightarrow> CelestialBody \<Rightarrow> error + Factor" where
  "velocityFactor fx body =
     bind_err (velocityBucket fx body) (\<lambda>(velocityScore, velocityExplanation). Inr
       \<lparr>factor_name = ''Velocity'', factor_score = velocityScore, factor_max = 35,
        percentage = (real_of_int velocityScore / 35) * 100,
        factor_explanation = velocityExplanation\<rparr>)"

text \<open>
  FACTOR 3: SIZE RISK (0-25 points). \<^verbatim>\<open>estimatedDiameter = body.radius * 2\<close> is a
  number in every case (\<^verbatim>\<open>NaN\<close> when the radius is absent), so nothing raises here.
\<close>

definition estimatedDiameter :: "CelestialBody \<Rightarrow> jsnum" where
  "estimatedDiameter body = js_mul (ToNumber (radius body)) (Num 2)"

definition sizeBucket :: "(nat \<Rightarrow> real \<Rightarrow> string) \<Rightarrow> CelestialBody \<Rightarrow> int \<times> string" where
  "sizeBucket fx body =
     (if js_gt (estimatedDiameter body) (Num 0.25) then (25,
        ''LARGE object (~'' @ toFixed fx (js_mul (estimatedDiameter body) (Num 1000)) 0 @
        ''m diameter) - City-scale destruction potential, mass extinction risk'')
      else if js_gt (estimatedDiameter body) (Num 0.15) then (18,
        ''MEDIUM object (~'' @ toFixed fx (js_mul (estimatedDiameter body) (Num 1000)) 0 @
        ''m diameter) - Regional impact potential, Tunguska-scale event'')
      else if js_gt (estimatedDiameter body) (Num 0.08) then (10,
        ''SMALL object (~'' @ toFixed fx (js_mul (estimatedDiameter body) (Num 1000)) 0 @
        ''m diameter) - Local impact, most would burn up in atmosphere'')
      else (5,
        ''TINY object (~'' @ toFixed fx (js_mul (estimatedDiameter body) (Num 1000)) 0 @
        ''m diameter) - Minimal threat, likely to disintegrate on entry''))"

definition sizeFactor :: "(nat \<Rightarrow> real \<Rightarrow> string) \<Rightarrow> CelestialBody \<Rightarrow> Factor" where
  "sizeFactor fx body =
     (case sizeBucket fx body of (sizeScore, sizeExplanation) \<Rightarrow>
       \<lparr>factor_name = ''Size'', factor_score = sizeScore, factor_max = 25,
        percentage = (real_of_int sizeScore / 25) * 100,
        factor_explanation = sizeExplanation\<rparr>)"

text \<open>DETERMINE RISK LEVEL AND COLOR: level, color and overall explanation of a total score.\<close>

definition determineRiskLevel :: "int \<Rightarrow> RiskLevel \<times> string \<times> string" where
  "determineRiskLevel total_score =
     (if total_score \<ge> 66 then (HIGH, ''#ff006e'',
        [CHR 0xE2, CHR 0x9A, CHR 0xA0, CHR 0xEF, CHR 0xB8, CHR 0x8F] @
        '' HIGH RISK: This object requires immediate monitoring and potential deflection planning. Combination of close proximity, high velocity, and/or significant size creates substantial threat.'')
      else if total_score \<ge> 31 then (MEDIUM, ''#ffbe0b'',
        [CHR 0xE2, CHR 0x9A, CHR 0xA1] @
        '' MEDIUM RISK: This object warrants continued observation and tracking. While not immediately threatening, certain factors elevate it above routine monitoring.'')
      else (LOW, ''#00f0ff'',
        [CHR 0xE2, CHR 0x9C, CHR 0x93] @
        '' LOW RISK: This object poses minimal threat based on current trajectory and characteristics. Standard monitoring protocols apply.''))"

text \<open>The whole function; \<open>None\<close> is a \<^verbatim>\<open>null\<close> or \<^verbatim>\<open>undefined\<close> argument.\<close>

definition calculateRiskScore ::
  "(nat \<Rightarrow> real \<Rightarrow> string) \<Rightarrow> CelestialBody option \<Rightarrow> error + RiskAssessment" where
  "calculateRiskScore fx arg =
     (case arg of
        None \<Rightarrow> Inr \<lparr>score = 0, level = LOW, risk_color = ''#00f0ff'',
                     explanation = ''No object selected'', factors = []\<rparr>
      | Some body \<Rightarrow>
          bind_err (distanceFactor fx body) (\<lambda>f1.
          bind_err (velocityFactor fx body) (\<lambda>f2.
            let f3 = sizeFactor fx body;
                total_score = 0 + factor_score f1 + factor_score f2 + factor_score f3
            in case determineRiskLevel total_score of (lv, col, overallExplanation) \<Rightarrow>
                 Inr \<lparr>score = Math_round (of_int total_score), level = lv, risk_color = col,
                      explanation = overallExplanation, factors = [f1, f2, f3]\<rparr>)))"

section \<open>getRiskTrend\<close>

datatype Trend = ABOVE_AVERAGE | BELOW_AVERAGE | AVERAGE

record RiskTrend =
  current :: int
  average :: jsnum
  difference :: jsnum
  trend :: Trend
  message :: string

text \<open>
  \<^verbatim>\<open>allBodies.reduce((sum, b) => sum + calculateRiskScore(b).score, 0)\<close>: left to right
  from the accumulator; a call that raises ends the reduction.
\<close>

fun reduce_scores ::
  "(nat \<Rightarrow> real \<Rightarrow> string) \<Rightarrow> int \<Rightarrow> CelestialBody option list \<Rightarrow> error + int" where
  "reduce_scores fx acc [] = Inr acc"
| "reduce_scores fx acc (b # bs) =
     bind_err (calculateRiskScore fx b) (\<lambda>r. reduce_scores fx (acc + score r) bs)"

definition getRiskTrend ::
  "(nat \<Rightarrow> real \<Rightarrow> string) \<Rightarrow> CelestialBody option \<Rightarrow> CelestialBody option list
     \<Rightarrow> error + RiskTrend" where
  "getRiskTrend fx body allBodies =
     bind_err (calculateRiskScore fx body) (\<lambda>currentRisk.
     bind_err (reduce_scores fx 0 allBodies) (\<lambda>total_score.
       let avgScore = js_div (Num (of_int total_score)) (Num (of_nat (length allBodies)));
           diff = js_sub (Num (of_int (score currentRisk))) avgScore
       in Inr \<lparr>current = score currentRisk,
               average = js_round avgScore,
               difference = js_round diff,
               trend = (if js_gt diff (Num 15) then ABOVE_AVERAGE
                        else if js_lt diff (Num (- 15)) then BELOW_AVERAGE else AVERAGE),
               message =
                 (if js_gt diff (Num 15) then
                    integer_toString (Math_abs (js_round diff)) @
                    '' points above fleet average - Priority monitoring''
                  else if js_lt diff (Num (- 15)) then
                    integer_toString (Math_abs (js_round diff)) @
                    '' points below fleet average - Routine tracking''
                  else ''Within average risk range for tracked objects'')\<rparr>))"

section \<open>The alerts of useNotifications\<close>

text \<open>
  The \<^verbatim>\<open>alerts\<close> memo of the hook, as a function of what it reads: the clock \<open>now\<close>
  (the time value of \<^verbatim>\<open>new Date()\<close>, in milliseconds, taken to lie at least thirty days
  before the end of the range of \<^verbatim>\<open>Date\<close>), the dismissed ids, the last viewed time
  (\<open>None\<close> for \<^verbatim>\<open>null\<close>) and the catalog. A \<^verbatim>\<open>Date\<close> is its time value, \<^verbatim>\<open>NaN\<close>
  for an invalid date; \<open>parseDate\<close> is the host's reading of a date string.
  The \<^verbatim>\<open>createdAt\<close> text of an alert (the clock in ISO format) is left out.
\<close>

record Alert =
  alert_id :: string
  objectId :: string
  objectName :: string
  alert_closeApproachDate :: "string option"
  approachDate :: jsnum
  daysUntilApproach :: jsnum
  alert_distanceFromEarth :: "real option"
  alert_velocity :: "real option"
  riskLevel :: RiskLevel
  riskScore :: int
  riskColor :: string
  alert_color :: string
  isNew :: bool

definition ALERT_DAYS_THRESHOLD :: real where
  "ALERT_DAYS_THRESHOLD = 30"

definition ALERT_DISTANCE_THRESHOLD :: real where
  "ALERT_DISTANCE_THRESHOLD = 10"

definition newDate :: "(string \<Rightarrow> jsnum) \<Rightarrow> string option \<Rightarrow> jsnum" where
  "newDate parseDate v = (case v of None \<Rightarrow> NaN | Some s \<Rightarrow> parseDate s)"

text \<open>The callback of \<^verbatim>\<open>filter\<close>; an absent or empty date string is falsy.\<close>

definition alertFilter ::
  "(string \<Rightarrow> jsnum) \<Rightarrow> real \<Rightarrow> string list \<Rightarrow> CelestialBody \<Rightarrow> bool" where
  "alertFilter parseDate now dismissedIds body =
     (if closeApproachDate body = None \<or> closeApproachDate body = Some [] then False
      else
        let thirtyDaysFromNow = now + ALERT_DAYS_THRESHOLD * 24 * 60 * 60 * 1000;
            approach = newDate parseDate (closeApproachDate body);
            isFutureDate = js_gt approach (Num now);
            isWithinThirtyDays = js_le approach (Num thirtyDaysFromNow);
            isCloseProximity =
              js_lt (ToNumber (distanceFromEarth body)) (Num ALERT_DISTANCE_THRESHOLD);
            isNotDismissed = (body_id body \<notin> set dismissedIds)
        in isFutureDate \<and> isWithinThirtyDays \<and> isCloseProximity \<and> isNotDismissed)"

text \<open>The callback of \<^verbatim>\<open>map\<close>; it raises when calculateRiskScore does.\<close>

definition toAlert ::
  "(nat \<Rightarrow> real \<Rightarrow> string) \<Rightarrow> (string \<Rightarrow> jsnum) \<Rightarrow> real \<Rightarrow> jsnum option
     \<Rightarrow> CelestialBody \<Rightarrow> error + Alert" where
  "toAlert fx parseDate now lastViewedTime body =
     (let approach = newDate parseDate (closeApproachDate body) in
      bind_err (calculateRiskScore fx (Some body)) (\<lambda>riskData. Inr
        \<lparr>alert_id = ''alert-'' @ body_id body,
         objectId = body_id body,
         objectName = name body,
         alert_closeApproachDate = closeApproachDate body,
         approachDate = approach,
         daysUntilApproach =
           Math_ceil (js_div (js_sub approach (Num now)) (Num (1000 * 60 * 60 * 24))),
         alert_distanceFromEarth = distanceFromEarth body,
         alert_velocity = velocity body,
         riskLevel = level riskData,
         riskScore = score riskData,
         riskColor = risk_color riskData,
         alert_color = color body,
         isNew = (case lastViewedTime of None \<Rightarrow> True | Some t \<Rightarrow> js_gt approach t)\<rparr>))"

text \<open>The comparator of \<^verbatim>\<open>sort\<close>.\<close>

fun riskOrder :: "RiskLevel \<Rightarrow> int" where
  "riskOrder HIGH = 3"
| "riskOrder MEDIUM = 2"
| "riskOrder LOW = 1"

definition compareAlerts :: "Alert \<Rightarrow> Alert \<Rightarrow> jsnum" where
  "compareAlerts a b =
     (let riskDiff = riskOrder (riskLevel b) - riskOrder (riskLevel a)
      in if riskDiff \<noteq> 0 then Num (of_int riskDiff)
         else js_sub (daysUntilApproach a) (daysUntilApproach b))"

text \<open>
  \<^verbatim>\<open>Array.prototype.map\<close> with a callback that may raise: the first raise ends it.
\<close>

fun map_err :: "('a \<Rightarrow> error + 'b) \<Rightarrow> 'a list \<Rightarrow> error + 'b list" where
  "map_err f [] = Inr []"
| "map_err f (x # xs) =
     bind_err (f x) (\<lambda>y. bind_err (map_err f xs) (\<lambda>ys. Inr (y # ys)))"

text \<open>
  \<^verbatim>\<open>Array.prototype.sort\<close> with a comparator: \<open>x\<close> goes after \<open>y\<close> only when the
  comparator's value is above zero (\<^verbatim>\<open>NaN\<close> counts as zero), and the sort is stable. For a
  consistent comparator the language fixes the result, which insertion from the right
  computes.
\<close>

fun sort_insert :: "('a \<Rightarrow> 'a \<Rightarrow> jsnum) \<Rightarrow> 'a \<Rightarrow> 'a list \<Rightarrow> 'a list" where
  "sort_insert cmp x [] = [x]"
| "sort_insert cmp x (y # ys) =
     (if js_gt (cmp x y) (Num 0) then y # sort_insert cmp x ys else x # y # ys)"

fun Array_sort :: "('a \<Rightarrow> 'a \<Rightarrow> jsnum) \<Rightarrow> 'a list \<Rightarrow> 'a list" where
  "Array_sort cmp [] = []"
| "Array_sort cmp (x # xs) = sort_insert cmp x (Array_sort cmp xs)"

definition alerts ::
  "(nat \<Rightarrow> real \<Rightarrow> string) \<Rightarrow> (string \<Rightarrow> jsnum) \<Rightarrow> real \<Rightarrow> string list \<Rightarrow> jsnum option
     \<Rightarrow> CelestialBody list \<Rightarrow> error + Alert list" where
  "alerts fx parseDate now dismissedIds lastViewedTime celestialBodies =
     bind_err
       (map_err (toAlert fx parseDate now lastViewedTime)
          (filter (alertFilter parseDate now dismissedIds) celestialBodies))
       (\<lambda>mapped. Inr (Array_sort compareAlerts mapped))"

section \<open>The alert policy in the specification's words\<close>

text \<open>
  Eligibility as the specification words it: the body has a close approach date, the date
  lies within the next thirty days, the distance from Earth is below 10 million km, and the
  body has not been dismissed. It is compared with \<open>alertFilter\<close> below.
\<close>

definition spec_alert_eligible ::
  "(string \<Rightarrow> jsnum) \<Rightarrow> real \<Rightarrow> string list \<Rightarrow> CelestialBody \<Rightarrow> bool" where
  "spec_alert_eligible parseDate now dismissedIds b =
     (case closeApproachDate b of
        None \<Rightarrow> False
      | Some s \<Rightarrow>
          s \<noteq> [] \<and>
          (case parseDate s of
             NaN \<Rightarrow> False
           | Num t \<Rightarrow> now < t \<and> t \<le> now + 30 * (24 * 60 * 60 * 1000)) \<and>
          (case distanceFromEarth b of None \<Rightarrow> False | Some d \<Rightarrow> d < 10) \<and>
          body_id b \<notin> set dismissedIds)"

text \<open>
  The order of the alerts as the specification words it: a higher risk level comes first,
  and within a level fewer days until the approach come first.
\<close>

definition ranks_before :: "Alert \<Rightarrow> Alert \<Rightarrow> bool" where
  "ranks_before a b =
     ((riskLevel a = HIGH \<or> riskLevel b = LOW \<or> riskLevel a = riskLevel b) \<and>
      (riskLevel a = riskLevel b \<longrightarrow>
         (\<exists>x y. daysUntilApproach a = Num x \<and> daysUntilApproach b = Num y \<and> x \<le> y)))"

section \<open>The catalog\<close>

text \<open>
  The catalog \<^verbatim>\<open>celestialBodies\<close> of the source, with the fields the functions above read
  (the rendering fields \<^verbatim>\<open>distance\<close>, \<^verbatim>\<open>orbitRadius\<close>, \<^verbatim>\<open>orbitSpeed\<close> and
  \<^verbatim>\<open>rotationSpeed\<close> are not read by them).
\<close>

definition bennu :: CelestialBody where
  "bennu = \<lparr>body_id = ''asteroid-bennu'', name = ''Bennu (101955)'',
     distanceFromEarth = Some 18.6, velocity = Some 27.7, radius = Some 0.12,
     color = ''#8B8680'', closeApproachDate = Some ''2026-02-15''\<rparr>"

definition apophis :: CelestialBody where
  "apophis = \<lparr>body_id = ''asteroid-apophis'', name = ''Apophis (99942)'',
     distanceFromEarth = Some 0.31, velocity = Some 30.7, radius = Some 0.08,
     color = ''#A89F91'', closeApproachDate = Some ''2026-03-01''\<rparr>"

definition ryugu :: CelestialBody where
  "ryugu = \<lparr>body_id = ''asteroid-ryugu'', name = ''Ryugu (162173)'',
     distanceFromEarth = Some 39.7, velocity = Some 24.4, radius = Some 0.11,
     color = ''#6E6A5B'', closeApproachDate = Some ''2026-03-20''\<rparr>"

definition eros :: CelestialBody where
  "eros = \<lparr>body_id = ''asteroid-eros'', name = ''Eros (433)'',
     distanceFromEarth = Some 68.5, velocity = Some 24.36, radius = Some 0.17,
     color = ''#9D9081'', closeApproachDate = Some ''2026-04-10''\<rparr>"

definition itokawa :: CelestialBody where
  "itokawa = \<lparr>body_id = ''asteroid-itokawa'', name = ''Itokawa (25143)'',
     distanceFromEarth = Some 0.52, velocity = Some 31.2, radius = Some 0.06,
     color = ''#B5ADA3'', closeApproachDate = Some ''2026-02-28''\<rparr>"

definition vesta :: CelestialBody where
  "vesta = \<lparr>body_id = ''asteroid-vesta'', name = ''Vesta (4)'',
     distanceFromEarth = Some 203.8, velocity = Some 19.34, radius = Some 0.28,
     color = ''#C4BDB2'', closeApproachDate = Some ''2026-05-15''\<rparr>"

definition didymos :: CelestialBody where
  "didymos = \<lparr>body_id = ''asteroid-didymos'', name = ''Didymos (65803)'',
     distanceFromEarth = Some 45.9, velocity = Some 23.3, radius = Some 0.09,
     color = ''#7D7568'', closeApproachDate = Some ''2026-04-05''\<rparr>"

definition psyche :: CelestialBody where
  "psyche = \<lparr>body_id = ''asteroid-psyche'', name = ''Psyche (16)'',
     distanceFromEarth = Some 229.0, velocity = Some 18.95, radius = Some 0.25,
     color = ''#998B7D'', closeApproachDate = Some ''2026-06-01''\<rparr>"

definition pallas :: CelestialBody where
  "pallas = \<lparr>body_id = ''asteroid-pallas'', name = ''Pallas (2)'',
     distanceFromEarth = Some 264.9, velocity = Some 17.65, radius = Some 0.27,
     color = ''#ACA59A'', closeApproachDate = Some ''2026-06-20''\<rparr>"

definition ceres :: CelestialBody where
  "ceres = \<lparr>body_id = ''asteroid-ceres'', name = ''Ceres (1)'',
     distanceFromEarth = Some 264.1, velocity = Some 17.88, radius = Some 0.3,
     color = ''#D4CFC7'', closeApproachDate = Some ''2026-06-25''\<rparr>"

definition asteroid_2023xy :: CelestialBody where
  "asteroid_2023xy = \<lparr>body_id = ''asteroid-2023xy'', name = ''Asteroid 2023 XY'',
     distanceFromEarth = Some 5.6, velocity = Some 29.4, radius = Some 0.07,
     color = ''#8F8679'', closeApproachDate = Some ''2026-02-20''\<rparr>"

definition asteroid_2024ab :: CelestialBody where
  "asteroid_2024ab = \<lparr>body_id = ''asteroid-2024ab'', name = ''Asteroid 2024 AB'',
     distanceFromEarth = Some 23.2, velocity = Some 26.8, radius = Some 0.13,
     color = ''#A39A8D'', closeApproachDate = Some ''2026-03-10''\<rparr>"

definition celestialBodies :: "CelestialBody list" where
  "celestialBodies = [bennu, apophis, ryugu, eros, itokawa, vesta, didymos, psyche, pallas,
     ceres, asteroid_2023xy, asteroid_2024ab]"

text \<open>
  The time values of the catalog's date strings (a date-only ISO string is midnight UTC),
  for running the alerts on the catalog; no other string is read there.
\<close>

definition catalogDate :: "string \<Rightarrow> jsnum" where
  "catalogDate s =
     (case map_of
        [(''2026-02-15'', 1771113600000), (''2026-03-01'', 1772323200000),
         (''2026-03-20'', 1773964800000), (''2026-04-10'', 1775779200000),
         (''2026-02-28'', 1772236800000), (''2026-05-15'', 1778803200000),
         (''2026-04-05'', 1775347200000), (''2026-06-01'', 1780272000000),
         (''2026-06-20'', 1781913600000), (''2026-06-25'', 1782345600000),
         (''2026-02-20'', 1771545600000), (''2026-03-10'', 1773100800000)] s
      of None \<Rightarrow> NaN | Some t \<Rightarrow> Num t)"

section \<open>Properties of calculateRiskScore\<close>

subsection \<open>The three factors\<close>

lemma Math_round_of_int: "Math_round (of_int n) = n"
  unfolding Math_round_def by linarith

lemma distanceFactor_Some:
  "distanceFromEarth b = Some d \<Longrightarrow>
   \<exists>f. distanceFactor fx b = Inr f \<and>
       factor_score f = (if d < 0.5 then 40 else if d < 5 then 30 else if d < 50 then 20 else 10)"
  by (simp add: distanceFactor_def distanceBucket_def bind_err_def field_toFixed_def ToNumber_def)

lemma distanceFactor_None:
  "distanceFromEarth b = None \<Longrightarrow> distanceFactor fx b = Inl TypeError"
  by (simp add: distanceFactor_def distanceBucket_def bind_err_def field_toFixed_def ToNumber_def)

lemma velocityFactor_Some:
  "velocity b = Some v \<Longrightarrow>
   \<exists>f. velocityFactor fx b = Inr f \<and>
       factor_score f = (if v > 35 then 35 else if v > 30 then 25 else if v > 25 then 15 else 5)"
  by (simp add: velocityFactor_def velocityBucket_def bind_err_def field_toFixed_def ToNumber_def)

lemma velocityFactor_None:
  "velocity b = None \<Longrightarrow> velocityFactor fx b = Inl TypeError"
  by (simp add: velocityFactor_def velocityBucket_def bind_err_def field_toFixed_def ToNumber_def)

lemma sizeFactor_score:
  "factor_score (sizeFactor fx b) =
     (case radius b of None \<Rightarrow> 5
      | Some r \<Rightarrow> if r * 2 > 0.25 then 25 else if r * 2 > 0.15 then 18
                  else if r * 2 > 0.08 then 10 else 5)"
  by (simp add: sizeFactor_def sizeBucket_def estimatedDiameter_def ToNumber_def
      split: option.splits)

lemma distanceFactor_range:
  "distanceFactor fx b = Inr f \<Longrightarrow> 10 \<le> factor_score f \<and> factor_score f \<le> 40"
  by (cases "distanceFromEarth b")
     (use distanceFactor_None[of b fx] distanceFactor_Some[of b _ fx] in
       \<open>auto split: if_splits\<close>)

lemma velocityFactor_range:
  "velocityFactor fx b = Inr f \<Longrightarrow> 5 \<le> factor_score f \<and> factor_score f \<le> 35"
  by (cases "velocity b")
     (use velocityFactor_None[of b fx] velocityFactor_Some[of b _ fx] in
       \<open>auto split: if_splits\<close>)

lemma sizeFactor_range:
  "5 \<le> factor_score (sizeFactor fx b) \<and> factor_score (sizeFactor fx b) \<le> 25"
  by (simp add: sizeFactor_score split: option.splits)

lemma level_of_total:
  "(fst (determineRiskLevel s) = HIGH \<longleftrightarrow> s \<ge> 66) \<and>
   (fst (determineRiskLevel s) = MEDIUM \<longleftrightarrow> 31 \<le> s \<and> s < 66) \<and>
   (fst (determineRiskLevel s) = LOW \<longleftrightarrow> s < 31)"
  by (simp add: determineRiskLevel_def)

subsection \<open>The shape of a returned assessment\<close>

lemma calculateRiskScore_Some:
  "calculateRiskScore fx (Some b) = Inr a \<longleftrightarrow>
     (\<exists>f1 f2. distanceFactor fx b = Inr f1 \<and> velocityFactor fx b = Inr f2 \<and>
        a = \<lparr>score = factor_score f1 + factor_score f2 + factor_score (sizeFactor fx b),
             level = fst (determineRiskLevel
               (factor_score f1 + factor_score f2 + factor_score (sizeFactor fx b))),
             risk_color = fst (snd (determineRiskLevel
               (factor_score f1 + factor_score f2 + factor_score (sizeFactor fx b)))),
             explanation = snd (snd (determineRiskLevel
               (factor_score f1 + factor_score f2 + factor_score (sizeFactor fx b)))),
             factors = [f1, f2, sizeFactor fx b]\<rparr>)"
  by (auto simp add: calculateRiskScore_def bind_err_def Let_def Math_round_of_int
      split: sum.splits prod.splits)

lemma calculateRiskScore_raises:
  "distanceFromEarth b = None \<or> velocity b = None \<Longrightarrow>
   calculateRiskScore fx (Some b) = Inl TypeError"
  by (cases "distanceFromEarth b")
     (use distanceFactor_None[of b fx] velocityFactor_None[of b fx] distanceFactor_Some[of b _ fx]
      in \<open>auto simp: calculateRiskScore_def bind_err_def\<close>)

text \<open>What a body with a numeric distance and velocity is given.\<close>

lemma calculateRiskScore_numeric:
  assumes "distanceFromEarth b = Some d" "velocity b = Some v"
  shows "\<exists>a. calculateRiskScore fx (Some b) = Inr a \<and>
     map factor_score (factors a) =
       [if d < 0.5 then 40 else if d < 5 then 30 else if d < 50 then 20 else 10,
        if v > 35 then 35 else if v > 30 then 25 else if v > 25 then 15 else 5,
        factor_score (sizeFactor fx b)] \<and>
     score a = sum_list (map factor_score (factors a)) \<and>
     factors a ! 2 = sizeFactor fx b \<and>
     level a = fst (determineRiskLevel (score a))"
proof -
  obtain f1 where f1: "distanceFactor fx b = Inr f1"
    "factor_score f1 = (if d < 0.5 then 40 else if d < 5 then 30 else if d < 50 then 20 else 10)"
    using distanceFactor_Some[OF assms(1), of fx] by blast
  obtain f2 where f2: "velocityFactor fx b = Inr f2"
    "factor_score f2 = (if v > 35 then 35 else if v > 30 then 25 else if v > 25 then 15 else 5)"
    using velocityFactor_Some[OF assms(2), of fx] by blast
  from f1(1) f2(1) obtain a where a: "calculateRiskScore fx (Some b) = Inr a"
    "score a = factor_score f1 + factor_score f2 + factor_score (sizeFactor fx b)"
    "factors a = [f1, f2, sizeFactor fx b]"
    "level a = fst (determineRiskLevel
       (factor_score f1 + factor_score f2 + factor_score (sizeFactor fx b)))"
    by (auto simp: calculateRiskScore_Some)
  show ?thesis
    by (rule exI[of _ a]) (simp add: a f1(2) f2(2))
qed

lemma apophis_fields:
  "distanceFromEarth apophis = Some 0.31" "velocity apophis = Some 30.7"
  "radius apophis = Some 0.08"
  by (simp_all add: apophis_def)

subsection \<open>The claims\<close>

text \<open>
  C1. Whatever the argument (a body or \<^verbatim>\<open>null\<close>), the score of the assessment that
  calculateRiskScore returns is the sum of the scores of its factors, and it lies
  between 0 and 100.
\<close>

theorem score_decomposition:
  assumes "calculateRiskScore fx arg = Inr a"
  shows "score a = sum_list (map factor_score (factors a)) \<and> 0 \<le> score a \<and> score a \<le> 100"
proof (cases arg)
  case None
  with assms show ?thesis by (auto simp: calculateRiskScore_def)
next
  case (Some b)
  with assms obtain f1 f2 where f: "distanceFactor fx b = Inr f1" "velocityFactor fx b = Inr f2"
    and a: "score a = factor_score f1 + factor_score f2 + factor_score (sizeFactor fx b)"
           "factors a = [f1, f2, sizeFactor fx b]"
    by (auto simp: calculateRiskScore_Some)
  from distanceFactor_range[OF f(1)] velocityFactor_range[OF f(2)] sizeFactor_range[of fx b] a
  show ?thesis by simp
qed

theorem score_decomposition_witness:
  "\<exists>a. calculateRiskScore fixed_decimal (Some apophis) = Inr a \<and>
       score a = sum_list (map factor_score (factors a)) \<and> 0 \<le> score a \<and> score a \<le> 100"
proof -
  from calculateRiskScore_numeric[OF apophis_fields(1,2), of fixed_decimal]
  obtain a where a: "calculateRiskScore fixed_decimal (Some apophis) = Inr a" by blast
  from score_decomposition[OF a] a show ?thesis by blast
qed

text \<open>
  C2. For a body (not \<^verbatim>\<open>null\<close>), the level of the returned assessment is HIGH exactly
  when the score is at least 66, MEDIUM exactly when it is at least 31 and below 66, and
  LOW exactly when it is below 31; the level block gives HIGH at 66 and MEDIUM at 31.
\<close>

theorem level_score_consistency:
  assumes "calculateRiskScore fx (Some body) = Inr a"
  shows "(level a = HIGH \<longleftrightarrow> score a \<ge> 66) \<and>
         (level a = MEDIUM \<longleftrightarrow> 31 \<le> score a \<and> score a < 66) \<and>
         (level a = LOW \<longleftrightarrow> score a < 31) \<and>
         fst (determineRiskLevel 66) = HIGH \<and> fst (determineRiskLevel 31) = MEDIUM"
proof -
  from assms obtain s where "score a = s" "level a = fst (determineRiskLevel s)"
    by (auto simp: calculateRiskScore_Some)
  then show ?thesis
    using level_of_total[of s] level_of_total[of 66] level_of_total[of 31] by simp
qed

theorem level_score_consistency_witness:
  "\<exists>a. calculateRiskScore fixed_decimal (Some apophis) = Inr a \<and>
       (level a = HIGH \<longleftrightarrow> score a \<ge> 66) \<and>
       (level a = MEDIUM \<longleftrightarrow> 31 \<le> score a \<and> score a < 66) \<and>
       (level a = LOW \<longleftrightarrow> score a < 31)"
proof -
  from calculateRiskScore_numeric[OF apophis_fields(1,2), of fixed_decimal]
  obtain a where a: "calculateRiskScore fixed_decimal (Some apophis) = Inr a" by blast
  from level_score_consistency[OF a] a show ?thesis by blast
qed

text \<open>
  C3. For a body whose distance, velocity and radius are real numbers that are not
  negative, calculateRiskScore raises nothing and returns a score between 15 and 100
  (its floor is in fact 20 = 10 + 5 + 5).
\<close>

theorem totality_nonneg:
  assumes "distanceFromEarth body = Some d" "velocity body = Some v" "radius body = Some r"
    and "0 \<le> d" "0 \<le> v" "0 \<le> r"
  shows "\<exists>a. calculateRiskScore fx (Some body) = Inr a \<and> 15 \<le> score a \<and> score a \<le> 100 \<and>
             20 \<le> score a"
proof -
  obtain f1 where f1: "distanceFactor fx body = Inr f1"
    using distanceFactor_Some[OF assms(1), of fx] by blast
  obtain f2 where f2: "velocityFactor fx body = Inr f2"
    using velocityFactor_Some[OF assms(2), of fx] by blast
  from f1 f2 obtain a where a: "calculateRiskScore fx (Some body) = Inr a"
    "score a = factor_score f1 + factor_score f2 + factor_score (sizeFactor fx body)"
    by (auto simp: calculateRiskScore_Some)
  from distanceFactor_range[OF f1] velocityFactor_range[OF f2] sizeFactor_range[of fx body] a
  show ?thesis by auto
qed

theorem totality_nonneg_witness:
  "distanceFromEarth apophis = Some 0.31 \<and> velocity apophis = Some 30.7 \<and>
   radius apophis = Some 0.08 \<and> (0::real) \<le> 0.31 \<and> (0::real) \<le> 30.7 \<and> (0::real) \<le> 0.08 \<and>
   (\<exists>a. calculateRiskScore fixed_decimal (Some apophis) = Inr a \<and> 15 \<le> score a \<and>
        score a \<le> 100 \<and> 20 \<le> score a)"
proof -
  have n: "(0::real) \<le> 0.31" "(0::real) \<le> 30.7" "(0::real) \<le> 0.08" by simp_all
  from totality_nonneg[OF apophis_fields n, of fixed_decimal] apophis_fields n
  show ?thesis by blast
qed

text \<open>
  C4. Of two bodies that agree on velocity and radius, the one with the smaller
  distanceFromEarth has a distance sub-score, and a total score, at least as large as the
  other. Likewise, with the other two metrics equal, a larger velocity never gives a
  smaller velocity sub-score or total, and a larger radius never gives a smaller size
  sub-score or total.
\<close>

theorem monotonicity:
  assumes "distanceFromEarth b1 = Some d1" "velocity b1 = Some v1"
      and "distanceFromEarth b2 = Some d2" "velocity b2 = Some v2"
  shows "\<exists>a1 a2. calculateRiskScore fx (Some b1) = Inr a1 \<and>
           calculateRiskScore fx (Some b2) = Inr a2 \<and>
           (d1 \<le> d2 \<and> v1 = v2 \<and> radius b1 = radius b2 \<longrightarrow>
              factor_score (factors a1 ! 0) \<ge> factor_score (factors a2 ! 0) \<and>
              score a1 \<ge> score a2) \<and>
           (v1 \<le> v2 \<and> d1 = d2 \<and> radius b1 = radius b2 \<longrightarrow>
              factor_score (factors a1 ! 1) \<le> factor_score (factors a2 ! 1) \<and>
              score a1 \<le> score a2) \<and>
           (radius b1 = Some r1 \<and> radius b2 = Some r2 \<and> r1 \<le> r2 \<and>
            d1 = d2 \<and> v1 = v2 \<longrightarrow>
              factor_score (factors a1 ! 2) \<le> factor_score (factors a2 ! 2) \<and>
              score a1 \<le> score a2)"
proof -
  from calculateRiskScore_numeric[OF assms(1,2), of fx] obtain a1 where
    "calculateRiskScore fx (Some b1) = Inr a1 \<and>
     map factor_score (factors a1) =
       [if d1 < 0.5 then 40 else if d1 < 5 then 30 else if d1 < 50 then 20 else 10,
        if v1 > 35 then 35 else if v1 > 30 then 25 else if v1 > 25 then 15 else 5,
        factor_score (sizeFactor fx b1)] \<and>
     score a1 = sum_list (map factor_score (factors a1)) \<and>
     factors a1 ! 2 = sizeFactor fx b1 \<and>
     level a1 = fst (determineRiskLevel (score a1))" ..
  then have a1: "calculateRiskScore fx (Some b1) = Inr a1"
    "map factor_score (factors a1) =
       [if d1 < 0.5 then 40 else if d1 < 5 then 30 else if d1 < 50 then 20 else 10,
        if v1 > 35 then 35 else if v1 > 30 then 25 else if v1 > 25 then 15 else 5,
        factor_score (sizeFactor fx b1)]"
    "score a1 = sum_list (map factor_score (factors a1))"
    by blast+
  from calculateRiskScore_numeric[OF assms(3,4), of fx] obtain a2 where
    "calculateRiskScore fx (Some b2) = Inr a2 \<and>
     map factor_score (factors a2) =
       [if d2 < 0.5 then 40 else if d2 < 5 then 30 else if d2 < 50 then 20 else 10,
        if v2 > 35 then 35 else if v2 > 30 then 25 else if v2 > 25 then 15 else 5,
        factor_score (sizeFactor fx b2)] \<and>
     score a2 = sum_list (map factor_score (factors a2)) \<and>
     factors a2 ! 2 = sizeFactor fx b2 \<and>
     level a2 = fst (determineRiskLevel (score a2))" ..
  then have a2: "calculateRiskScore fx (Some b2) = Inr a2"
    "map factor_score (factors a2) =
       [if d2 < 0.5 then 40 else if d2 < 5 then 30 else if d2 < 50 then 20 else 10,
        if v2 > 35 then 35 else if v2 > 30 then 25 else if v2 > 25 then 15 else 5,
        factor_score (sizeFactor fx b2)]"
    "score a2 = sum_list (map factor_score (factors a2))"
    by blast+
  have l1: "length (factors a1) = 3" and l2: "length (factors a2) = 3"
    using a1(2) a2(2) by (metis length_map length_Cons list.size(3) numeral_3_eq_3)+
  have n1: "factor_score (factors a1 ! 0) = (if d1 < 0.5 then 40 else if d1 < 5 then 30 else if d1 < 50 then 20 else 10)"
    "factor_score (factors a1 ! 1) = (if v1 > 35 then 35 else if v1 > 30 then 25 else if v1 > 25 then 15 else 5)"
    "factor_score (factors a1 ! 2) = factor_score (sizeFactor fx b1)"
    using arg_cong[OF a1(2), of "\<lambda>l. l ! 0"] arg_cong[OF a1(2), of "\<lambda>l. l ! 1"]
          arg_cong[OF a1(2), of "\<lambda>l. l ! 2"] l1 by simp_all
  have n2: "factor_score (factors a2 ! 0) = (if d2 < 0.5 then 40 else if d2 < 5 then 30 else if d2 < 50 then 20 else 10)"
    "factor_score (factors a2 ! 1) = (if v2 > 35 then 35 else if v2 > 30 then 25 else if v2 > 25 then 15 else 5)"
    "factor_score (factors a2 ! 2) = factor_score (sizeFactor fx b2)"
    using arg_cong[OF a2(2), of "\<lambda>l. l ! 0"] arg_cong[OF a2(2), of "\<lambda>l. l ! 1"]
          arg_cong[OF a2(2), of "\<lambda>l. l ! 2"] l2 by simp_all
  have s1: "score a1 = factor_score (factors a1 ! 0) + factor_score (factors a1 ! 1) + factor_score (factors a1 ! 2)"
    unfolding n1 a1(3) a1(2) by simp
  have s2: "score a2 = factor_score (factors a2 ! 0) + factor_score (factors a2 ! 1) + factor_score (factors a2 ! 2)"
    unfolding n2 a2(3) a2(2) by simp
  have size_eq: "radius b1 = radius b2 \<Longrightarrow> factor_score (sizeFactor fx b1) = factor_score (sizeFactor fx b2)"
    by (simp add: sizeFactor_score)
  have size_mono: "radius b1 = Some r1 \<Longrightarrow> radius b2 = Some r2 \<Longrightarrow> r1 \<le> r2 \<Longrightarrow>
      factor_score (sizeFactor fx b1) \<le> factor_score (sizeFactor fx b2)" for r1 r2
    by (simp add: sizeFactor_score)
  have A: "d1 \<le> d2 \<and> v1 = v2 \<and> radius b1 = radius b2 \<longrightarrow>
              factor_score (factors a1 ! 0) \<ge> factor_score (factors a2 ! 0) \<and> score a1 \<ge> score a2"
    unfolding s1 s2 unfolding n1 n2 using size_eq by auto
  have B: "v1 \<le> v2 \<and> d1 = d2 \<and> radius b1 = radius b2 \<longrightarrow>
              factor_score (factors a1 ! 1) \<le> factor_score (factors a2 ! 1) \<and> score a1 \<le> score a2"
    unfolding s1 s2 unfolding n1 n2 using size_eq by auto
  have C: "radius b1 = Some r1 \<and> radius b2 = Some r2 \<and> r1 \<le> r2 \<and> d1 = d2 \<and> v1 = v2 \<longrightarrow>
              factor_score (factors a1 ! 2) \<le> factor_score (factors a2 ! 2) \<and> score a1 \<le> score a2"
    unfolding s1 s2 unfolding n1 n2 using size_mono by auto
  from a1(1) a2(1) A B C show ?thesis by blast
qed

theorem monotonicity_witness:
  "(\<exists>a1 a2. calculateRiskScore fixed_decimal (Some apophis) = Inr a1 \<and>
      calculateRiskScore fixed_decimal (Some (apophis\<lparr>distanceFromEarth := Some 5.6\<rparr>)) = Inr a2 \<and>
      factor_score (factors a1 ! 0) \<ge> factor_score (factors a2 ! 0) \<and> score a1 \<ge> score a2) \<and>
   (\<exists>a1 a2. calculateRiskScore fixed_decimal (Some apophis) = Inr a1 \<and>
      calculateRiskScore fixed_decimal (Some (apophis\<lparr>velocity := Some 36\<rparr>)) = Inr a2 \<and>
      factor_score (factors a1 ! 1) \<le> factor_score (factors a2 ! 1) \<and> score a1 \<le> score a2) \<and>
   (\<exists>a1 a2. calculateRiskScore fixed_decimal (Some apophis) = Inr a1 \<and>
      calculateRiskScore fixed_decimal (Some (apophis\<lparr>radius := Some 0.3\<rparr>)) = Inr a2 \<and>
      factor_score (factors a1 ! 2) \<le> factor_score (factors a2 ! 2) \<and> score a1 \<le> score a2)"
proof -
  have d: "distanceFromEarth (apophis\<lparr>distanceFromEarth := Some 5.6\<rparr>) = Some 5.6"
    "velocity (apophis\<lparr>distanceFromEarth := Some 5.6\<rparr>) = Some 30.7"
    "(0.31::real) \<le> 5.6 \<and> (30.7::real) = 30.7 \<and>
     radius apophis = radius (apophis\<lparr>distanceFromEarth := Some 5.6\<rparr>)"
    by (simp_all add: apophis_def)
  have v: "distanceFromEarth (apophis\<lparr>velocity := Some 36\<rparr>) = Some 0.31"
    "velocity (apophis\<lparr>velocity := Some 36\<rparr>) = Some 36"
    "(30.7::real) \<le> 36 \<and> (0.31::real) = 0.31 \<and>
     radius apophis = radius (apophis\<lparr>velocity := Some 36\<rparr>)"
    by (simp_all add: apophis_def)
  have r: "distanceFromEarth (apophis\<lparr>radius := Some 0.3\<rparr>) = Some 0.31"
    "velocity (apophis\<lparr>radius := Some 0.3\<rparr>) = Some 30.7"
    "radius apophis = Some 0.08 \<and> radius (apophis\<lparr>radius := Some 0.3\<rparr>) = Some 0.3 \<and>
     (0.08::real) \<le> 0.3 \<and> (0.31::real) = 0.31 \<and> (30.7::real) = 30.7"
    by (simp_all add: apophis_def)
  from monotonicity[OF apophis_fields(1,2) d(1,2), of fixed_decimal] d(3)
  have A: "\<exists>a1 a2. calculateRiskScore fixed_decimal (Some apophis) = Inr a1 \<and>
      calculateRiskScore fixed_decimal (Some (apophis\<lparr>distanceFromEarth := Some 5.6\<rparr>)) = Inr a2 \<and>
      factor_score (factors a1 ! 0) \<ge> factor_score (factors a2 ! 0) \<and> score a1 \<ge> score a2"
    by blast
  from monotonicity[OF apophis_fields(1,2) v(1,2), of fixed_decimal] v(3)
  have B: "\<exists>a1 a2. calculateRiskScore fixed_decimal (Some apophis) = Inr a1 \<and>
      calculateRiskScore fixed_decimal (Some (apophis\<lparr>velocity := Some 36\<rparr>)) = Inr a2 \<and>
      factor_score (factors a1 ! 1) \<le> factor_score (factors a2 ! 1) \<and> score a1 \<le> score a2"
    by blast
  from monotonicity[OF apophis_fields(1,2) r(1,2), of fixed_decimal "0.08" "0.3"] r(3)
  have C: "\<exists>a1 a2. calculateRiskScore fixed_decimal (Some apophis) = Inr a1 \<and>
      calculateRiskScore fixed_decimal (Some (apophis\<lparr>radius := Some 0.3\<rparr>)) = Inr a2 \<and>
      factor_score (factors a1 ! 2) \<le> factor_score (factors a2 ! 2) \<and> score a1 \<le> score a2"
    by blast
  from A B C show ?thesis by blast
qed

text \<open>
  C5, as amended. For a body whose radius is absent and whose distance and velocity are
  numbers, calculateRiskScore returns an assessment with three factors. The diameter is
  \<^verbatim>\<open>NaN\<close>, every comparison on it fails, and the size factor is the 5-point TINY bucket;
  its explanation is the TINY sentence with the diameter printed as "NaN". The function
  has no text "unknown".
\<close>

theorem missing_radius:
  assumes "radius body = None" "distanceFromEarth body = Some d" "velocity body = Some v"
  shows "\<exists>a. calculateRiskScore fx (Some body) = Inr a \<and>
           estimatedDiameter body = NaN \<and>
           length (factors a) = 3 \<and>
           factors a ! 2 = \<lparr>factor_name = ''Size'', factor_score = 5, factor_max = 25,
             percentage = 20,
             factor_explanation =
               ''TINY object (~NaNm diameter) - Minimal threat, likely to disintegrate on entry''\<rparr>"
proof -
  have sz: "sizeFactor fx body = \<lparr>factor_name = ''Size'', factor_score = 5, factor_max = 25,
             percentage = 20,
             factor_explanation =
               ''TINY object (~NaNm diameter) - Minimal threat, likely to disintegrate on entry''\<rparr>"
    using assms(1) by (simp add: sizeFactor_def sizeBucket_def estimatedDiameter_def ToNumber_def toFixed_def)
  have nan: "estimatedDiameter body = NaN"
    using assms(1) by (simp add: estimatedDiameter_def ToNumber_def)
  from calculateRiskScore_numeric[OF assms(2,3), of fx] obtain a where
    "calculateRiskScore fx (Some body) = Inr a \<and>
     map factor_score (factors a) =
       [if d < 0.5 then 40 else if d < 5 then 30 else if d < 50 then 20 else 10,
        if v > 35 then 35 else if v > 30 then 25 else if v > 25 then 15 else 5,
        factor_score (sizeFactor fx body)] \<and>
     score a = sum_list (map factor_score (factors a)) \<and>
     factors a ! 2 = sizeFactor fx body \<and>
     level a = fst (determineRiskLevel (score a))" ..
  then have a: "calculateRiskScore fx (Some body) = Inr a"
    "map factor_score (factors a) =
       [if d < 0.5 then 40 else if d < 5 then 30 else if d < 50 then 20 else 10,
        if v > 35 then 35 else if v > 30 then 25 else if v > 25 then 15 else 5,
        factor_score (sizeFactor fx body)]"
    "factors a ! 2 = sizeFactor fx body"
    by blast+
  have "length (factors a) = 3"
    using a(2) by (metis length_map length_Cons list.size(3) numeral_3_eq_3)
  with a nan sz show ?thesis by auto
qed

theorem missing_radius_witness:
  "radius (apophis\<lparr>radius := None\<rparr>) = None \<and>
   distanceFromEarth (apophis\<lparr>radius := None\<rparr>) = Some 0.31 \<and>
   velocity (apophis\<lparr>radius := None\<rparr>) = Some 30.7 \<and>
   (\<exists>a. calculateRiskScore fixed_decimal (Some (apophis\<lparr>radius := None\<rparr>)) = Inr a \<and>
        estimatedDiameter (apophis\<lparr>radius := None\<rparr>) = NaN \<and>
        length (factors a) = 3 \<and>
        factors a ! 2 = \<lparr>factor_name = ''Size'', factor_score = 5, factor_max = 25,
          percentage = 20,
          factor_explanation =
            ''TINY object (~NaNm diameter) - Minimal threat, likely to disintegrate on entry''\<rparr>)"
proof -
  have h: "radius (apophis\<lparr>radius := None\<rparr>) = None"
    "distanceFromEarth (apophis\<lparr>radius := None\<rparr>) = Some 0.31"
    "velocity (apophis\<lparr>radius := None\<rparr>) = Some 30.7"
    by (simp_all add: apophis_def)
  from missing_radius[OF h, of fixed_decimal] h show ?thesis by blast
qed

text \<open>
  C5 as stated fails on the catalog entry Apophis with its radius removed: the size
  explanation does not hold the text "unknown".
\<close>

theorem missing_radius_counterexample:
  "case calculateRiskScore fixed_decimal (Some (apophis\<lparr>radius := None\<rparr>)) of
     Inl e \<Rightarrow> False
   | Inr a \<Rightarrow> factor_explanation (factors a ! 2) =
        ''TINY object (~NaNm diameter) - Minimal threat, likely to disintegrate on entry'' \<and>
      \<not> sublist ''unknown'' (factor_explanation (factors a ! 2))"
proof -
  have "\<not> sublist ''unknown''
      ''TINY object (~NaNm diameter) - Minimal threat, likely to disintegrate on entry''"
    by code_simp
  then show ?thesis
    by (simp add: calculateRiskScore_def distanceFactor_def velocityFactor_def sizeFactor_def
      distanceBucket_def velocityBucket_def sizeBucket_def estimatedDiameter_def
      determineRiskLevel_def ToNumber_def bind_err_def field_toFixed_def toFixed_def
      Math_round_def apophis_def)
qed

text \<open>
  C6. Applied to \<^verbatim>\<open>null\<close> or \<^verbatim>\<open>undefined\<close>, calculateRiskScore raises nothing and
  returns the canned assessment: score 0, level LOW, explanation "No object selected"
  (and no factors).
\<close>

theorem calculateRiskScore_null:
  "calculateRiskScore fx None =
     Inr \<lparr>score = 0, level = LOW, risk_color = ''#00f0ff'',
          explanation = ''No object selected'', factors = []\<rparr>"
  by (simp add: calculateRiskScore_def)

text \<open>
  C7. The body with distanceFromEarth 0.31, velocity 30.7 and radius 0.08 is given the
  distance sub-score 40, the velocity sub-score 25 and the size sub-score 18 (its diameter
  0.16 is above 0.15), the total 83 and the level HIGH.
\<close>

theorem apophis_scenario:
  "\<exists>a. calculateRiskScore fx (Some \<lparr>body_id = i, name = n, distanceFromEarth = Some 0.31,
          velocity = Some 30.7, radius = Some 0.08, color = c, closeApproachDate = ap\<rparr>) = Inr a \<and>
       estimatedDiameter \<lparr>body_id = i, name = n, distanceFromEarth = Some 0.31,
          velocity = Some 30.7, radius = Some 0.08, color = c, closeApproachDate = ap\<rparr> = Num 0.16 \<and>
       map factor_name (factors a) = [''Distance'', ''Velocity'', ''Size''] \<and>
       map factor_score (factors a) = [40, 25, 18] \<and> score a = 83 \<and> level a = HIGH"
  by (simp add: calculateRiskScore_def distanceFactor_def velocityFactor_def sizeFactor_def
      distanceBucket_def velocityBucket_def sizeBucket_def estimatedDiameter_def
      determineRiskLevel_def ToNumber_def bind_err_def field_toFixed_def Math_round_def)

section \<open>Properties of getRiskTrend\<close>

lemma reduce_scores_Inr:
  "list_all2 (\<lambda>b x. calculateRiskScore fx b = Inr x) bs rs \<Longrightarrow>
   reduce_scores fx acc bs = Inr (acc + sum_list (map score rs))"
proof (induction bs rs arbitrary: acc rule: list_all2_induct)
  case Nil
  then show ?case by simp
next
  case (Cons b bs r rs)
  then show ?case by (simp add: bind_err_def add.assoc)
qed

lemma vesta_fields:
  "distanceFromEarth vesta = Some 203.8" "velocity vesta = Some 19.34"
  "radius vesta = Some 0.28"
  by (simp_all add: vesta_def)

text \<open>
  C9. For a body and a collection of bodies that is not empty, getRiskTrend compares the
  body's score with the mean score of the collection: the trend is ABOVE_AVERAGE exactly
  when the difference is above 15, BELOW_AVERAGE exactly when it is below -15, and AVERAGE
  otherwise. (The call returns whenever calculateRiskScore returns on the body and on
  every member of the collection.)
\<close>

theorem risk_trend_band:
  assumes "allBodies \<noteq> []"
      and "calculateRiskScore fx body = Inr r"
      and "list_all2 (\<lambda>b x. calculateRiskScore fx b = Inr x) allBodies rs"
  defines "delta \<equiv> real_of_int (score r) -
             real_of_int (sum_list (map score rs)) / real (length allBodies)"
  shows "\<exists>t. getRiskTrend fx body allBodies = Inr t \<and>
           (trend t = ABOVE_AVERAGE \<longleftrightarrow> delta > 15) \<and>
           (trend t = BELOW_AVERAGE \<longleftrightarrow> delta < - 15) \<and>
           (trend t = AVERAGE \<longleftrightarrow> - 15 \<le> delta \<and> delta \<le> 15)"
proof -
  have len: "real (length allBodies) \<noteq> 0" using assms(1) by simp
  have red: "reduce_scores fx 0 allBodies = Inr (sum_list (map score rs))"
    using reduce_scores_Inr[OF assms(3), of 0] by simp
  show ?thesis
    unfolding getRiskTrend_def delta_def
    using len by (simp add: assms(2) red bind_err_def Let_def)
qed

theorem risk_trend_band_witness:
  "[Some apophis, Some vesta] \<noteq> [] \<and>
   (\<exists>t. getRiskTrend fixed_decimal (Some apophis) [Some apophis, Some vesta] = Inr t \<and>
        trend t = ABOVE_AVERAGE)"
proof -
  from calculateRiskScore_numeric[OF apophis_fields(1,2), of fixed_decimal]
  obtain a1 where a1: "calculateRiskScore fixed_decimal (Some apophis) = Inr a1" "score a1 = 83"
    by (auto simp: sizeFactor_score apophis_fields)
  from calculateRiskScore_numeric[OF vesta_fields(1,2), of fixed_decimal]
  obtain a2 where a2: "calculateRiskScore fixed_decimal (Some vesta) = Inr a2" "score a2 = 40"
    by (auto simp: sizeFactor_score vesta_fields)
  have ne: "[Some apophis, Some vesta] \<noteq> []" by simp
  have l: "list_all2 (\<lambda>b x. calculateRiskScore fixed_decimal b = Inr x)
             [Some apophis, Some vesta] [a1, a2]"
    by (simp add: a1 a2)
  from risk_trend_band[OF ne a1(1) l] show ?thesis
    by (auto simp: a1 a2)
qed

section \<open>Properties of the alerts\<close>

subsection \<open>Mapping and sorting\<close>

lemma map_err_Inr_D:
  "map_err f xs = Inr ys \<Longrightarrow> list_all2 (\<lambda>x y. f x = Inr y) xs ys"
  by (induction xs arbitrary: ys) (auto simp: bind_err_def split: sum.splits)

lemma map_err_Inr_I:
  "list_all2 (\<lambda>x y. f x = Inr y) xs ys \<Longrightarrow> map_err f xs = Inr ys"
  by (induction xs ys rule: list_all2_induct) (simp_all add: bind_err_def)

lemma map_err_Inr:
  "map_err f xs = Inr ys \<longleftrightarrow> list_all2 (\<lambda>x y. f x = Inr y) xs ys"
  using map_err_Inr_D map_err_Inr_I by blast

lemma map_err_total:
  "(\<forall>x\<in>set xs. \<exists>y. f x = Inr y) \<Longrightarrow> \<exists>ys. map_err f xs = Inr ys"
  by (induction xs) (auto simp: bind_err_def)

lemma mset_sort_insert: "mset (sort_insert cmp x xs) = add_mset x (mset xs)"
  by (induction xs) auto

lemma mset_Array_sort: "mset (Array_sort cmp xs) = mset xs"
  by (induction xs) (auto simp: mset_sort_insert)

lemma set_sort_insert: "set (sort_insert cmp x xs) = insert x (set xs)"
  using mset_sort_insert[of cmp x xs] by (metis set_mset_add_mset_insert set_mset_mset)

lemma set_Array_sort: "set (Array_sort cmp xs) = set xs"
  using mset_Array_sort[of cmp xs] by (metis set_mset_mset)

lemma alertFilter_spec:
  "alertFilter parseDate now dismissedIds b = spec_alert_eligible parseDate now dismissedIds b"
proof (cases "closeApproachDate b")
  case None
  then show ?thesis by (simp add: alertFilter_def spec_alert_eligible_def)
next
  case (Some s)
  show ?thesis
    by (cases "parseDate s"; cases "distanceFromEarth b")
       (auto simp: alertFilter_def spec_alert_eligible_def Some newDate_def ToNumber_def
          ALERT_DAYS_THRESHOLD_def ALERT_DISTANCE_THRESHOLD_def Let_def)
qed

lemma toAlert_Inr:
  assumes "toAlert fx parseDate now lv b = Inr a"
  shows "objectId a = body_id b"
    and "daysUntilApproach a =
           Math_ceil (js_div (js_sub (newDate parseDate (closeApproachDate b)) (Num now))
             (Num (1000 * 60 * 60 * 24)))"
    and "\<exists>r. calculateRiskScore fx (Some b) = Inr r \<and> riskLevel a = level r \<and>
             riskScore a = score r"
  using assms by (auto simp: toAlert_def bind_err_def Let_def split: sum.splits)

lemma toAlert_days_finite:
  assumes "toAlert fx parseDate now lv b = Inr a" "alertFilter parseDate now dismissedIds b"
  shows "\<exists>k. daysUntilApproach a = Num k"
proof -
  from assms(2) obtain t where "newDate parseDate (closeApproachDate b) = Num t"
    by (cases "newDate parseDate (closeApproachDate b)")
       (auto simp: alertFilter_def Let_def split: if_splits)
  with toAlert_Inr(2)[OF assms(1)] show ?thesis by simp
qed

lemma alerts_Inr:
  "alerts fx parseDate now dismissedIds lv bodies = Inr as \<longleftrightarrow>
     (\<exists>mapped. list_all2 (\<lambda>b a. toAlert fx parseDate now lv b = Inr a)
          (filter (alertFilter parseDate now dismissedIds) bodies) mapped \<and>
        as = Array_sort compareAlerts mapped)"
  by (cases "map_err (toAlert fx parseDate now lv)
          (filter (alertFilter parseDate now dismissedIds) bodies)")
     (auto simp: alerts_def bind_err_def map_err_Inr[symmetric])

lemma list_all2_map_eq:
  "list_all2 (\<lambda>x y. R x y) xs ys \<Longrightarrow> (\<And>x y. R x y \<Longrightarrow> g y = f x) \<Longrightarrow> map g ys = map f xs"
  by (induction xs ys rule: list_all2_induct) auto

lemma alerts_ids:
  assumes "alerts fx parseDate now dismissedIds lv bodies = Inr as"
  shows "mset (map objectId as) =
         mset (map body_id (filter (alertFilter parseDate now dismissedIds) bodies))"
proof -
  from assms obtain mapped where m:
    "list_all2 (\<lambda>b a. toAlert fx parseDate now lv b = Inr a)
          (filter (alertFilter parseDate now dismissedIds) bodies) mapped"
    "as = Array_sort compareAlerts mapped"
    by (auto simp: alerts_Inr)
  have "map objectId mapped = map body_id (filter (alertFilter parseDate now dismissedIds) bodies)"
    by (rule list_all2_map_eq[OF m(1)]) (rule toAlert_Inr(1))
  moreover have "mset (map objectId as) = mset (map objectId mapped)"
    unfolding m(2) by (simp add: mset_Array_sort)
  ultimately show ?thesis by simp
qed

lemma list_all2_rightD:
  "list_all2 R xs ys \<Longrightarrow> y \<in> set ys \<Longrightarrow> \<exists>x\<in>set xs. R x y"
  by (induction xs ys rule: list_all2_induct) auto

lemma alerts_days_finite:
  assumes "alerts fx parseDate now dismissedIds lv bodies = Inr as" "a \<in> set as"
  shows "\<exists>k. daysUntilApproach a = Num k"
proof -
  from assms obtain mapped where m:
    "list_all2 (\<lambda>b a. toAlert fx parseDate now lv b = Inr a)
          (filter (alertFilter parseDate now dismissedIds) bodies) mapped"
    "as = Array_sort compareAlerts mapped"
    by (auto simp: alerts_Inr)
  from assms(2) m(2) have "a \<in> set mapped" by (simp add: set_Array_sort)
  from list_all2_rightD[OF m(1) this]
  obtain b where "b \<in> set (filter (alertFilter parseDate now dismissedIds) bodies)"
    "toAlert fx parseDate now lv b = Inr a"
    by blast
  then show ?thesis using toAlert_days_finite[of fx parseDate now lv b a dismissedIds] by simp
qed

text \<open>The comparator against the specification's order, on alerts with finite days.\<close>

lemma compare_ranks:
  assumes "daysUntilApproach a = Num x" "daysUntilApproach b = Num y"
  shows "\<not> js_gt (compareAlerts a b) (Num 0) \<longleftrightarrow> ranks_before a b"
  by (cases "riskLevel a"; cases "riskLevel b")
     (simp_all add: compareAlerts_def ranks_before_def assms not_less)

lemma compare_ranks_swap:
  assumes "daysUntilApproach a = Num x" "daysUntilApproach b = Num y"
      and "js_gt (compareAlerts a b) (Num 0)"
  shows "ranks_before b a"
  using assms(3)
  by (cases "riskLevel a"; cases "riskLevel b")
     (simp_all add: compareAlerts_def ranks_before_def assms(1,2))

lemma ranks_before_trans:
  "ranks_before a b \<Longrightarrow> ranks_before b c \<Longrightarrow> ranks_before a c"
  by (cases "riskLevel a"; cases "riskLevel b"; cases "riskLevel c")
     (auto simp: ranks_before_def)

lemma sorted_sort_insert:
  assumes "sorted_wrt ranks_before xs" "\<forall>a\<in>set (x # xs). \<exists>k. daysUntilApproach a = Num k"
  shows "sorted_wrt ranks_before (sort_insert compareAlerts x xs)"
  using assms
proof (induction xs)
  case Nil
  then show ?case by simp
next
  case (Cons y ys)
  from Cons.prems(2) obtain kx ky where k: "daysUntilApproach x = Num kx" "daysUntilApproach y = Num ky"
    by auto
  show ?case
  proof (cases "js_gt (compareAlerts x y) (Num 0)")
    case True
    then have yx: "ranks_before y x" using compare_ranks_swap[OF k] by simp
    have "sorted_wrt ranks_before (sort_insert compareAlerts x ys)"
      using Cons by simp
    with True yx Cons.prems(1) show ?thesis by (auto simp: set_sort_insert)
  next
    case False
    then have xy: "ranks_before x y" using compare_ranks[OF k] by simp
    with False Cons.prems(1) show ?thesis
      by (auto intro: ranks_before_trans)
  qed
qed

lemma sorted_Array_sort:
  "\<forall>a\<in>set xs. \<exists>k. daysUntilApproach a = Num k \<Longrightarrow>
   sorted_wrt ranks_before (Array_sort compareAlerts xs)"
  by (induction xs) (auto intro!: sorted_sort_insert simp: set_Array_sort)

lemma alerts_total:
  assumes "\<forall>b\<in>set bodies. velocity b \<noteq> None"
  shows "\<exists>as. alerts fx parseDate now dismissedIds lv bodies = Inr as"
proof -
  have "\<exists>a. toAlert fx parseDate now lv b = Inr a"
    if "b \<in> set (filter (alertFilter parseDate now dismissedIds) bodies)" for b
  proof -
    from that assms obtain v where v: "velocity b = Some v" by auto
    from that obtain d where d: "distanceFromEarth b = Some d"
      by (cases "distanceFromEarth b")
         (auto simp: alertFilter_def Let_def ToNumber_def split: if_splits)
    from calculateRiskScore_numeric[OF d v, of fx]
    show ?thesis by (auto simp: toAlert_def bind_err_def Let_def)
  qed
  then obtain mapped where "map_err (toAlert fx parseDate now lv)
      (filter (alertFilter parseDate now dismissedIds) bodies) = Inr mapped"
    using map_err_total[of "filter (alertFilter parseDate now dismissedIds) bodies"
        "toAlert fx parseDate now lv"] by blast
  then show ?thesis by (simp add: alerts_def bind_err_def)
qed

lemma catalog_velocity: "\<forall>b\<in>set celestialBodies. velocity b \<noteq> None"
  by (simp del: not_None_eq add: celestialBodies_def bennu_def apophis_def ryugu_def eros_def itokawa_def
      vesta_def didymos_def psyche_def pallas_def ceres_def asteroid_2023xy_def
      asteroid_2024ab_def)

lemma catalog_filter:
  "filter (alertFilter catalogDate 1770681600000 []) celestialBodies =
     [apophis, itokawa, asteroid_2023xy]"
  by (simp add: celestialBodies_def alertFilter_def newDate_def catalogDate_def ToNumber_def
     ALERT_DAYS_THRESHOLD_def ALERT_DISTANCE_THRESHOLD_def
     bennu_def apophis_def ryugu_def eros_def itokawa_def vesta_def didymos_def psyche_def
     pallas_def ceres_def asteroid_2023xy_def asteroid_2024ab_def)

subsection \<open>The claims\<close>

text \<open>
  C8. For every catalog and every clock value, the filter of the hook selects a body
  exactly when the body has a close approach date that lies within the next thirty days,
  its distance from Earth is below 10 million km, and its id is not among the dismissed
  ones; the alerts the hook produces are the selected bodies, one alert each.
\<close>

theorem alert_selection:
  "alertFilter parseDate now dismissedIds b = spec_alert_eligible parseDate now dismissedIds b \<and>
   (alerts fx parseDate now dismissedIds lv bodies = Inr as \<longrightarrow>
      mset (map objectId as) =
      mset (map body_id (filter (spec_alert_eligible parseDate now dismissedIds) bodies)))"
proof -
  have "alertFilter parseDate now dismissedIds = spec_alert_eligible parseDate now dismissedIds"
    by (rule ext) (rule alertFilter_spec)
  then show ?thesis using alerts_ids[of fx parseDate now dismissedIds lv bodies as]
    by (simp add: alertFilter_spec)
qed

theorem alert_selection_witness:
  "alertFilter catalogDate 1770681600000 [''asteroid-itokawa''] apophis \<and>
   spec_alert_eligible catalogDate 1770681600000 [''asteroid-itokawa''] apophis \<and>
   \<not> alertFilter catalogDate 1770681600000 [''asteroid-itokawa''] itokawa \<and>
   \<not> spec_alert_eligible catalogDate 1770681600000 [''asteroid-itokawa''] bennu \<and>
   (\<exists>as. alerts fixed_decimal catalogDate 1770681600000 [''asteroid-itokawa''] None
            celestialBodies = Inr as \<and>
         mset (map objectId as) = {#''asteroid-apophis'', ''asteroid-2023xy''#})"
proof -
  obtain as where as: "alerts fixed_decimal catalogDate 1770681600000 [''asteroid-itokawa''] None
            celestialBodies = Inr as"
    using alerts_total[OF catalog_velocity] by blast
  have e: "map body_id (filter (spec_alert_eligible catalogDate 1770681600000
             [''asteroid-itokawa'']) celestialBodies) = [''asteroid-apophis'', ''asteroid-2023xy'']"
    by (simp add: celestialBodies_def spec_alert_eligible_def catalogDate_def
     bennu_def apophis_def ryugu_def eros_def itokawa_def vesta_def didymos_def psyche_def
     pallas_def ceres_def asteroid_2023xy_def asteroid_2024ab_def)
  have a: "spec_alert_eligible catalogDate 1770681600000 [''asteroid-itokawa''] apophis"
    and i: "\<not> spec_alert_eligible catalogDate 1770681600000 [''asteroid-itokawa''] itokawa"
    and b: "\<not> spec_alert_eligible catalogDate 1770681600000 [''asteroid-itokawa''] bennu"
    by (simp_all add: spec_alert_eligible_def catalogDate_def apophis_def itokawa_def bennu_def)
  from alert_selection[of catalogDate 1770681600000 "[''asteroid-itokawa'']" apophis
      fixed_decimal None celestialBodies as]
    alert_selection[of catalogDate 1770681600000 "[''asteroid-itokawa'']" itokawa
      fixed_decimal None celestialBodies as]
    as a i b
  show ?thesis by (auto simp: e)
qed

text \<open>
  C10. Whatever the catalog, the dismissed ids and the clock, the alerts come out in
  order: an alert earlier in the list has a risk level at least as high as a later one
  (HIGH before MEDIUM before LOW), and of two alerts with the same level the earlier has
  no more days until its approach.
\<close>

theorem alerts_sorted:
  assumes "alerts fx parseDate now dismissedIds lv bodies = Inr as" "i < j" "j < length as"
  shows "ranks_before (as ! i) (as ! j)"
proof -
  from assms(1) obtain mapped where m: "as = Array_sort compareAlerts mapped"
    by (auto simp: alerts_Inr)
  have "\<forall>a\<in>set mapped. \<exists>k. daysUntilApproach a = Num k"
    using alerts_days_finite[OF assms(1)] by (simp add: m set_Array_sort)
  then have "sorted_wrt ranks_before as"
    unfolding m by (rule sorted_Array_sort)
  then show ?thesis using assms(2,3) by (simp add: sorted_wrt_iff_nth_less)
qed

theorem alerts_sorted_witness:
  "\<exists>as. alerts fixed_decimal catalogDate 1770681600000 [] None celestialBodies = Inr as \<and>
        length as = 3 \<and> ranks_before (as ! 0) (as ! 1) \<and> ranks_before (as ! 1) (as ! 2) \<and>
        ranks_before (as ! 0) (as ! 2)"
proof -
  obtain as where as: "alerts fixed_decimal catalogDate 1770681600000 [] None
            celestialBodies = Inr as"
    using alerts_total[OF catalog_velocity] by blast
  have "length as = length (map objectId as)" by simp
  also have "\<dots> = size (mset (map objectId as))" by simp
  also have "\<dots> = 3" unfolding alerts_ids[OF as] catalog_filter by simp
  finally have len: "length as = 3" .
  from alerts_sorted[OF as, of 0 1] alerts_sorted[OF as, of 1 2] alerts_sorted[OF as, of 0 2]
    len as
  show ?thesis by auto
qed

end
